theory Spec2Isabelle
  imports Complex_Main
begin

section \<open>Data model of the chat session\<close>

text \<open>
  The development embeds \<^verbatim>\<open>frontend/src/contexts/ChatContext.tsx\<close> (the
  \<^verbatim>\<open>ChatProvider\<close> component) and the part of \<^verbatim>\<open>SocketContext.tsx\<close>
  it uses. React state, the timer reference and the pieces of the browser that the
  handlers touch (timers, \<^verbatim>\<open>localStorage\<close>, the socket's emit calls, the XHR
  requests sent) are the fields of one record; every handler is a function from the
  session to the session. A handler runs to completion before the next one starts
  (JavaScript's event loop), and it reads the state of the latest render.
\<close>

datatype sender = User | Ai

text \<open>
  Modelled from the spec: the declaration of \<^verbatim>\<open>MessageType\<close>
  (\<^verbatim>\<open>types/chat\<close>) is not among the sources. Its three fields are the ones of the
  spec's ChatMessage and of every object literal that \<^verbatim>\<open>ChatContext.tsx\<close> builds;
  the sender is \<^verbatim>\<open>'user'\<close> or \<^verbatim>\<open>'ai'\<close>.
\<close>

record MessageType =
  content :: string
  sender :: sender
  timestamp :: string

text \<open>The events that \<^verbatim>\<open>sendToSocket\<close> emits, with their payloads.\<close>

datatype outbound =
    MessageEvent string "string option"   \<comment> \<open>\<^verbatim>\<open>message {content, image_path}\<close>\<close>
  | AnalyzeImage "string option"          \<comment> \<open>\<^verbatim>\<open>analyze_image {image_path}\<close>\<close>
  | ClearImageEvent                       \<comment> \<open>\<^verbatim>\<open>clear_image {}\<close>\<close>

text \<open>The socket object: only its \<^verbatim>\<open>id\<close> is read (undefined while not connected).\<close>

record Socket =
  socket_id :: "string option"

record File =
  file_name :: string
  file_type :: string
  file_size :: int

text \<open>The multipart form and the request that \<^verbatim>\<open>xhr.send\<close> submits.\<close>

record FormData =
  form_file :: File
  form_socket_id :: "string option"

record upload_request =
  req_url :: string
  req_body :: FormData

text \<open>
  A JavaScript number as \<^verbatim>\<open>uploadProgress\<close> can hold it: \<^verbatim>\<open>Math.round\<close>
  returns an integral value, \<^verbatim>\<open>Infinity\<close> or \<^verbatim>\<open>NaN\<close>.
\<close>

datatype number = Num int | Infinity | NaN

record session =
  messages :: "MessageType list"
  imageUrl :: string
  isProcessing :: bool
  uploadProgress :: number
  responseTimeoutRef :: "nat option"
  \<comment> \<open>SocketContext\<close>
  socket :: "Socket option"
  isConnected :: bool
  \<comment> \<open>the browser\<close>
  timers :: "(nat \<times> int) list"        \<comment> \<open>live timeouts: handle and delay in ms\<close>
  lastTimer :: nat                      \<comment> \<open>the last handle \<^verbatim>\<open>setTimeout\<close> gave out\<close>
  clearCalls :: "nat list"              \<comment> \<open>the calls of \<^verbatim>\<open>clearTimeout\<close>, in order\<close>
  emitted :: "outbound list"            \<comment> \<open>the calls of \<^verbatim>\<open>socket.emit\<close>, in order\<close>
  current_image_path :: "string option" \<comment> \<open>the \<^verbatim>\<open>localStorage\<close> item of that name\<close>
  requests :: "upload_request list"     \<comment> \<open>the requests sent by \<^verbatim>\<open>xhr.send\<close>\<close>
  objectUrls :: "string list"           \<comment> \<open>object URLs created and not revoked\<close>
  VITE_BACKEND_URL :: "string option"

text \<open>The state of a freshly mounted provider in a browser with nothing stored.\<close>

definition initial :: session where
  "initial = \<lparr> messages = [], imageUrl = [], isProcessing = False,
     uploadProgress = Num 0, responseTimeoutRef = None,
     socket = None, isConnected = False,
     timers = [], lastTimer = 0, clearCalls = [], emitted = [],
     current_image_path = None, requests = [], objectUrls = [],
     VITE_BACKEND_URL = None \<rparr>"

section \<open>Browser primitives\<close>

text \<open>
  \<^verbatim>\<open>window.setTimeout\<close> returns a fresh handle, an integer greater than zero;
  \<^verbatim>\<open>clearTimeout\<close> removes the timer with that handle, if it is still live.
\<close>

definition setTimeout :: "int \<Rightarrow> session \<Rightarrow> nat \<times> session" where
  "setTimeout delay s =
     (let h = Suc (lastTimer s)
      in (h, s\<lparr>timers := timers s @ [(h, delay)], lastTimer := h\<rparr>))"

definition clearTimeout :: "nat \<Rightarrow> session \<Rightarrow> session" where
  "clearTimeout h s =
     s\<lparr>timers := filter (\<lambda>t. fst t \<noteq> h) (timers s), clearCalls := clearCalls s @ [h]\<rparr>"

text \<open>JavaScript truthiness of a string: every string but the empty one.\<close>

definition truthy_string :: "string \<Rightarrow> bool" where
  "truthy_string x = (x \<noteq> [])"

subsection \<open>Numbers: the arithmetic of the progress percentage\<close>

text \<open>
  \<^verbatim>\<open>Math.round((event.loaded / event.total) * 100)\<close> is computed on IEEE 754
  doubles. A finite double is modelled by the rational it denotes, and \<open>fl\<close> rounds a
  rational to the nearest double, ties to the even significand (53 bits). Only the
  normal range is modelled: the operands here are byte counts below \<open>2 ^ 64\<close>, so no
  quotient or product leaves it.
\<close>

function ilog2 :: "int \<Rightarrow> nat" where
  "ilog2 n = (if n < 2 then 0 else Suc (ilog2 (n div 2)))"
  by pat_completeness auto
termination
  by (relation "measure nat") auto

declare ilog2.simps [simp del]

definition clog2 :: "int \<Rightarrow> nat" where
  "clog2 n = (if n \<le> 1 then 0 else Suc (ilog2 (n - 1)))"

text \<open>The binary exponent \<open>e\<close> of a positive rational: \<open>2 ^ e \<le> x < 2 ^ (e + 1)\<close>.\<close>

definition exponent :: "rat \<Rightarrow> int" where
  "exponent x =
     (if 1 \<le> x then int (ilog2 \<lfloor>x\<rfloor>) else - int (clog2 \<lceil>1 / x\<rceil>))"

definition round_half_even :: "rat \<Rightarrow> int" where
  "round_half_even x =
     (let f = \<lfloor>x\<rfloor>; r = x - of_int f
      in if r < 1 / 2 then f else if 1 / 2 < r then f + 1
         else if even f then f else f + 1)"

definition fl :: "rat \<Rightarrow> rat" where
  "fl x =
     (if x \<le> 0 then 0
      else let e = exponent x
           in of_int (round_half_even (x * 2 powi (52 - e))) * 2 powi (e - 52))"

text \<open>
  \<^verbatim>\<open>Math.round\<close>: the nearest integer, a tie going towards \<open>+\<infinity>\<close>; the result is
  exact.
\<close>

definition Math_round :: "rat \<Rightarrow> int" where
  "Math_round x = \<lfloor>x + 1 / 2\<rfloor>"

text \<open>
  The two attributes of a progress event are unsigned 64-bit integers; read from
  JavaScript each is the nearest double. Division by zero gives \<^verbatim>\<open>NaN\<close> for
  \<open>0 / 0\<close> and \<^verbatim>\<open>Infinity\<close> otherwise, and both pass through the multiplication
  and \<^verbatim>\<open>Math.round\<close>.
\<close>

definition progress_value :: "nat \<Rightarrow> nat \<Rightarrow> number" where
  "progress_value l t =
     (if t = 0 then (if l = 0 then NaN else Infinity)
      else Num (Math_round (fl (fl (fl (of_nat l) / fl (of_nat t)) * 100))))"



section \<open>SocketContext\<close>

text \<open>
  The mount effect creates the socket; the library sets the socket's id when the
  connection is made and unsets it when it is lost; the three handlers of
  \<^verbatim>\<open>SocketProvider\<close> keep \<^verbatim>\<open>isConnected\<close>.
\<close>

definition socket_mount :: "session \<Rightarrow> session" where
  "socket_mount s = s\<lparr>socket := Some \<lparr>socket_id = None\<rparr>\<rparr>"

definition socket_on_connect :: "string \<Rightarrow> session \<Rightarrow> session" where
  "socket_on_connect sid s =
     (case socket s of
        None \<Rightarrow> s
      | Some sk \<Rightarrow> s\<lparr>socket := Some (sk\<lparr>socket_id := Some sid\<rparr>), isConnected := True\<rparr>)"

definition socket_on_disconnect :: "session \<Rightarrow> session" where
  "socket_on_disconnect s =
     (case socket s of
        None \<Rightarrow> s
      | Some sk \<Rightarrow> s\<lparr>socket := Some (sk\<lparr>socket_id := None\<rparr>), isConnected := False\<rparr>)"

definition socket_on_connect_error :: "session \<Rightarrow> session" where
  "socket_on_connect_error s = s\<lparr>isConnected := False\<rparr>"

text \<open>\<^verbatim>\<open>sendToSocket\<close>: \<^verbatim>\<open>socket?.emit(event, data)\<close>.\<close>

definition sendToSocket :: "outbound \<Rightarrow> session \<Rightarrow> session" where
  "sendToSocket ev s =
     (case socket s of None \<Rightarrow> s | Some sk \<Rightarrow> s\<lparr>emitted := emitted s @ [ev]\<rparr>)"

section \<open>ChatContext: the inbound handlers\<close>

definition addMessage :: "MessageType \<Rightarrow> session \<Rightarrow> session" where
  "addMessage m s = s\<lparr>messages := messages s @ [m]\<rparr>"

text \<open>
  The block that ends the handlers of \<^verbatim>\<open>disconnect\<close>, \<^verbatim>\<open>message\<close>,
  \<^verbatim>\<open>metadata_result\<close> and \<^verbatim>\<open>error\<close>:
  \<^verbatim>\<open>if (responseTimeoutRef.current) { clearTimeout(responseTimeoutRef.current);
  responseTimeoutRef.current = null; }\<close>.
  The test is JavaScript truthiness: neither \<^verbatim>\<open>null\<close> nor \<open>0\<close>.
\<close>

definition clearResponseTimeout :: "session \<Rightarrow> session" where
  "clearResponseTimeout s =
     (case responseTimeoutRef s of
        None \<Rightarrow> s
      | Some h \<Rightarrow>
          if h \<noteq> 0 then (clearTimeout h s)\<lparr>responseTimeoutRef := None\<rparr> else s)"

definition on_disconnect :: "session \<Rightarrow> session" where
  "on_disconnect s = clearResponseTimeout (s\<lparr>isProcessing := False\<rparr>)"

datatype role = System | Assistant

record message_data =
  msg_role :: role
  msg_content :: string

text \<open>Every handler that stamps a message takes the clock's reading as an argument.\<close>

definition on_message :: "string \<Rightarrow> message_data \<Rightarrow> session \<Rightarrow> session" where
  "on_message now d s =
     clearResponseTimeout
       ((addMessage \<lparr>content = msg_content d, sender = Ai, timestamp = now\<rparr> s)
          \<lparr>isProcessing := False\<rparr>)"

definition on_typing :: "bool \<Rightarrow> session \<Rightarrow> session" where
  "on_typing status s = s\<lparr>isProcessing := status\<rparr>"

text \<open>
  The payload of \<^verbatim>\<open>metadata_result\<close>. Its \<^verbatim>\<open>metadata\<close> field is never read and
  is left out; the optional fields are \<open>None\<close> when absent.
\<close>

record metadata_result =
  analysis :: "string option"
  original_prompt :: "string option"

definition on_metadata_result :: "string \<Rightarrow> metadata_result \<Rightarrow> session \<Rightarrow> session" where
  "on_metadata_result now d s =
     (let s1 =
        (case analysis d of
           Some a \<Rightarrow>
             if truthy_string a
             then addMessage \<lparr>content = a, sender = Ai, timestamp = now\<rparr> s
             else addMessage \<lparr>content =
               ''Image processed successfully! I can now answer questions about it.'',
               sender = Ai, timestamp = now\<rparr> s
         | None \<Rightarrow>
             addMessage \<lparr>content =
               ''Image processed successfully! I can now answer questions about it.'',
               sender = Ai, timestamp = now\<rparr> s)
      in clearResponseTimeout (s1\<lparr>isProcessing := False, uploadProgress := Num 100\<rparr>))"

definition on_error :: "string \<Rightarrow> string \<Rightarrow> session \<Rightarrow> session" where
  "on_error now message s =
     clearResponseTimeout
       ((addMessage \<lparr>content = ''Error: '' @ message, sender = Ai, timestamp = now\<rparr> s)
          \<lparr>isProcessing := False\<rparr>)"

section \<open>ChatContext: sendMessage and its timeout\<close>

text \<open>
  \<^verbatim>\<open>sendMessage(content)\<close>. The two clock readings are the one of the user's message
  and the one of the message appended when the socket is disconnected.
\<close>

definition sendMessage :: "string \<Rightarrow> string \<Rightarrow> string \<Rightarrow> session \<Rightarrow> session" where
  "sendMessage now now' text s =
     (if \<not> truthy_string (imageUrl s) then s
      else
        let s1 = addMessage \<lparr>content = text, sender = User, timestamp = now\<rparr> s
        in if \<not> isConnected s1
           then addMessage \<lparr>content =
                  ''There is a problem processing your request, please try again later'',
                  sender = Ai, timestamp = now'\<rparr> s1
           else
             let s2 = s1\<lparr>isProcessing := True\<rparr>;
                 s3 = (case responseTimeoutRef s2 of
                         None \<Rightarrow> s2
                       | Some old \<Rightarrow> if old \<noteq> 0 then clearTimeout old s2 else s2);
                 (h, s4) = setTimeout 60000 s3;
                 s5 = s4\<lparr>responseTimeoutRef := Some h\<rparr>
             in sendToSocket (MessageEvent text (current_image_path s5)) s5)"

text \<open>
  The timer with handle \<open>h\<close> elapses. A timer that was cleared never fires; a live one
  leaves the browser's list and runs the callback that \<^verbatim>\<open>sendMessage\<close> gave it.
\<close>

definition timeout_fires :: "string \<Rightarrow> nat \<Rightarrow> session \<Rightarrow> session" where
  "timeout_fires now h s =
     (if h \<in> fst ` set (timers s)
      then
        let s1 = s\<lparr>timers := filter (\<lambda>t. fst t \<noteq> h) (timers s)\<rparr>;
            s2 = s1\<lparr>isProcessing := False\<rparr>;
            s3 = addMessage \<lparr>content = ''Server timeout. Please try again.'',
                   sender = Ai, timestamp = now\<rparr> s2
        in s3\<lparr>responseTimeoutRef := None\<rparr>
      else s)"

section \<open>ChatContext: uploadImage and the callbacks of its request\<close>

text \<open>
  What a statement inside the \<^verbatim>\<open>try\<close> block throws: an \<^verbatim>\<open>Error\<close> with its
  message, or some other value. Only \<^verbatim>\<open>xhr.open\<close> can throw there (the URL does
  not parse); the argument \<open>thrown\<close> of \<open>uploadImage\<close> says whether it does.
\<close>

datatype thrown = ErrorObject string | OtherValue

definition backendUrl :: "session \<Rightarrow> string" where
  "backendUrl s =
     (case VITE_BACKEND_URL s of
        None \<Rightarrow> ''http://localhost:5000''
      | Some u \<Rightarrow> if truthy_string u then u else ''http://localhost:5000'')"

text \<open>
  \<^verbatim>\<open>uploadImage(file)\<close>; \<open>objectUrl\<close> is the URL that \<^verbatim>\<open>URL.createObjectURL\<close>
  returns for the file. The function has no \<^verbatim>\<open>await\<close>: it runs to its end at once.
\<close>

definition uploadImage ::
  "string \<Rightarrow> string \<Rightarrow> File \<Rightarrow> thrown option \<Rightarrow> session \<Rightarrow> session" where
  "uploadImage now objectUrl file thrown s =
     (let s1 = s\<lparr>objectUrls := objectUrls s @ [objectUrl]\<rparr>;
          s2 = s1\<lparr>imageUrl := objectUrl\<rparr>;
          s3 = s2\<lparr>uploadProgress := Num 0\<rparr>
      in if \<not> isConnected s3
         then addMessage \<lparr>content =
                ''Socket connection not established. Image preview is available, but you cannot communicate with the AI.'',
                sender = Ai, timestamp = now\<rparr> s3
         else
           let formData = \<lparr>form_file = file,
                 form_socket_id =
                   (case socket s3 of
                      None \<Rightarrow> None
                    | Some sk \<Rightarrow>
                        (case socket_id sk of
                           None \<Rightarrow> None
                         | Some i \<Rightarrow> if truthy_string i then Some i else None))\<rparr>;
               s4 = s3\<lparr>isProcessing := True\<rparr>
           in case thrown of
                None \<Rightarrow>
                  s4\<lparr>requests := requests s4 @
                    [\<lparr>req_url = backendUrl s4 @ ''/upload'', req_body = formData\<rparr>]\<rparr>
              | Some e \<Rightarrow>
                  (addMessage \<lparr>content = ''Error uploading image: '' @
                       (case e of ErrorObject m \<Rightarrow> m | OtherValue \<Rightarrow> ''Unknown error''),
                     sender = Ai, timestamp = now\<rparr> s4)
                    \<lparr>isProcessing := False\<rparr>)"

record ProgressEvent =
  lengthComputable :: bool
  loaded :: nat
  total :: nat

definition xhr_progress :: "ProgressEvent \<Rightarrow> session \<Rightarrow> session" where
  "xhr_progress ev s =
     (if lengthComputable ev
      then s\<lparr>uploadProgress := progress_value (loaded ev) (total ev)\<rparr>
      else s)"

text \<open>
  The response of the upload endpoint, as far as the \<^verbatim>\<open>load\<close> handler reads it. The
  text is empty, or not JSON, or it parses to \<^verbatim>\<open>null\<close> or to a value whose
  properties can be read: \<open>success\<close> is the truthiness of \<^verbatim>\<open>response.success\<close>,
  \<open>metadata\<close> is \<open>None\<close> when \<^verbatim>\<open>response.metadata\<close> is falsy, \<open>file_info\<close> is
  \<open>None\<close> when the property is undefined or null, and \<open>error_text\<close> is the text of
  a truthy \<^verbatim>\<open>error\<close> property.
\<close>

record file_info =
  file_path :: "string option"

record metadata =
  file_info :: "file_info option"

record upload_response =
  success :: bool
  metadata :: "metadata option"
  error_text :: "string option"

datatype response_text = EmptyText | NotJson | JsonNull | JsonValue upload_response

record XMLHttpRequest =
  status :: int
  responseText :: response_text

text \<open>
  An exception thrown inside an event callback is not caught by the \<^verbatim>\<open>try\<close> of
  \<^verbatim>\<open>uploadImage\<close>, which has returned long before: the callback ends there.
\<close>

datatype js_error = SyntaxError | TypeError

definition JSON_parse :: "response_text \<Rightarrow> js_error + upload_response option" where
  "JSON_parse t =
     (case t of
        EmptyText \<Rightarrow> Inl SyntaxError
      | NotJson \<Rightarrow> Inl SyntaxError
      | JsonNull \<Rightarrow> Inr None
      | JsonValue r \<Rightarrow> Inr (Some r))"

definition xhr_load :: "string \<Rightarrow> XMLHttpRequest \<Rightarrow> session \<Rightarrow> js_error + session" where
  "xhr_load now xhr s =
     (if 200 \<le> status xhr \<and> status xhr < 300
      then
        (case JSON_parse (responseText xhr) of
           Inl e \<Rightarrow> Inl e
         | Inr None \<Rightarrow> Inl TypeError
         | Inr (Some response) \<Rightarrow>
             if success response \<and> metadata response \<noteq> None
             then (case metadata response of
                     None \<Rightarrow> Inr s
                   | Some md \<Rightarrow>
                       (case file_info md of
                          None \<Rightarrow> Inl TypeError
                        | Some fi \<Rightarrow> Inr (sendToSocket (AnalyzeImage (file_path fi)) s)))
             else Inr s)
      else
        (case (if responseText xhr = EmptyText then Inr ''Upload failed''
               else (case JSON_parse (responseText xhr) of
                       Inl e \<Rightarrow> Inl e
                     | Inr None \<Rightarrow> Inl TypeError
                     | Inr (Some response) \<Rightarrow>
                         (case error_text response of
                            None \<Rightarrow> Inr ''Upload failed''
                          | Some e \<Rightarrow> Inr e))) of
           Inl e \<Rightarrow> Inl e
         | Inr errorMsg \<Rightarrow>
             Inr ((addMessage \<lparr>content = ''Error uploading image: '' @ errorMsg,
                     sender = Ai, timestamp = now\<rparr> s)
                    \<lparr>isProcessing := False\<rparr>)))"

definition xhr_error :: "string \<Rightarrow> session \<Rightarrow> session" where
  "xhr_error now s =
     (addMessage \<lparr>content = ''Error uploading image. Please try again later.'',
        sender = Ai, timestamp = now\<rparr> s)
       \<lparr>isProcessing := False\<rparr>"

section \<open>ChatContext: clearImage\<close>

definition clearImage :: "session \<Rightarrow> session" where
  "clearImage s =
     (let s1 = s\<lparr>imageUrl := []\<rparr>;
          s2 = s1\<lparr>current_image_path := None\<rparr>;
          s3 = (if isConnected s2 then sendToSocket ClearImageEvent s2 else s2)
      in s3\<lparr>messages := []\<rparr>)"

section \<open>Runs of the session\<close>

text \<open>
  Everything that can happen to the session: the socket's life cycle, the inbound
  events, the three operations, a timer elapsing and the callbacks of an upload
  request. The handlers of \<^verbatim>\<open>ChatProvider\<close> are subscribed once the socket exists. A
  callback that throws leaves the session as it found it.
\<close>

datatype event =
    Mount
  | Connect string
  | ConnectError
  | Disconnect
  | Message string message_data
  | Typing bool
  | MetadataResult string metadata_result
  | ErrorEvent string string
  | SendMessage string string string
  | TimeoutFires string nat
  | UploadImage string string File "thrown option"
  | XhrProgress ProgressEvent
  | XhrLoad string XMLHttpRequest
  | XhrError string
  | ClearImage

fun step :: "session \<Rightarrow> event \<Rightarrow> session" where
  "step s Mount = socket_mount s"
| "step s (Connect sid) = socket_on_connect sid s"
| "step s ConnectError = socket_on_connect_error s"
| "step s Disconnect =
     (case socket s of None \<Rightarrow> s | Some sk \<Rightarrow> on_disconnect (socket_on_disconnect s))"
| "step s (Message now d) =
     (case socket s of None \<Rightarrow> s | Some sk \<Rightarrow> on_message now d s)"
| "step s (Typing b) =
     (case socket s of None \<Rightarrow> s | Some sk \<Rightarrow> on_typing b s)"
| "step s (MetadataResult now d) =
     (case socket s of None \<Rightarrow> s | Some sk \<Rightarrow> on_metadata_result now d s)"
| "step s (ErrorEvent now m) =
     (case socket s of None \<Rightarrow> s | Some sk \<Rightarrow> on_error now m s)"
| "step s (SendMessage now now' text) = sendMessage now now' text s"
| "step s (TimeoutFires now h) = timeout_fires now h s"
| "step s (UploadImage now url file thrown) = uploadImage now url file thrown s"
| "step s (XhrProgress ev) = xhr_progress ev s"
| "step s (XhrLoad now xhr) = (case xhr_load now xhr s of Inl e \<Rightarrow> s | Inr s' \<Rightarrow> s')"
| "step s (XhrError now) = xhr_error now s"
| "step s ClearImage = clearImage s"

definition run :: "event list \<Rightarrow> session" where
  "run es = foldl step initial es"

text \<open>
  The events that release the lock and leave the timer of a question alone:
  \<^verbatim>\<open>typing\<close> with a false status, and the three failure paths of an upload.
\<close>

fun releases_lock_only :: "event \<Rightarrow> bool" where
  "releases_lock_only (Typing b) = (\<not> b)"
| "releases_lock_only (XhrLoad now xhr) = (\<not> (200 \<le> status xhr \<and> status xhr < 300))"
| "releases_lock_only (XhrError now) = True"
| "releases_lock_only (UploadImage now url file thrown) = (thrown \<noteq> None)"
| "releases_lock_only _ = False"

text \<open>The timer reference is set only while the lock is held.\<close>

definition timer_implies_lock :: "session \<Rightarrow> bool" where
  "timer_implies_lock s = (responseTimeoutRef s = None \<or> isProcessing s)"

text \<open>
  The same with what an induction over a run needs: a handle that is referenced is one
  that \<^verbatim>\<open>setTimeout\<close> returned, hence not zero.
\<close>

definition timer_inv :: "session \<Rightarrow> bool" where
  "timer_inv s =
     (case responseTimeoutRef s of None \<Rightarrow> True | Some h \<Rightarrow> h \<noteq> 0 \<and> isProcessing s)"

text \<open>
  The events that can set the lock to false: the four terminal inbound events, a
  \<^verbatim>\<open>typing\<close> event of false status, the timeout of a question and the failure
  reactions of an upload.
\<close>

fun may_release_lock :: "event \<Rightarrow> bool" where
  "may_release_lock Disconnect = True"
| "may_release_lock (Message now d) = True"
| "may_release_lock (Typing b) = (\<not> b)"
| "may_release_lock (MetadataResult now d) = True"
| "may_release_lock (ErrorEvent now m) = True"
| "may_release_lock (TimeoutFires now h) = True"
| "may_release_lock (XhrLoad now xhr) = (\<not> (200 \<le> status xhr \<and> status xhr < 300))"
| "may_release_lock (XhrError now) = True"
| "may_release_lock (UploadImage now url file thrown) = (thrown \<noteq> None)"
| "may_release_lock _ = False"



section \<open>An example run\<close>

text \<open>
  A session that mounts, connects, uploads an image the server accepts, receives the
  analysis and asks a question: the concrete input of the checks below.
\<close>

definition example_file :: File where
  "example_file = \<lparr>file_name = ''x.jpg'', file_type = ''image/jpeg'', file_size = 2097152\<rparr>"

definition upload_accepted :: XMLHttpRequest where
  "upload_accepted =
     \<lparr>status = 200,
      responseText = JsonValue
        \<lparr>success = True,
         metadata = Some \<lparr>file_info = Some \<lparr>file_path = Some ''/tmp/x.jpg''\<rparr>\<rparr>,
         error_text = None\<rparr>\<rparr>"

definition upload_rejected :: XMLHttpRequest where
  "upload_rejected =
     \<lparr>status = 200,
      responseText = JsonValue
        \<lparr>success = False, metadata = None, error_text = Some ''No file part''\<rparr>\<rparr>"

definition connected_events :: "event list" where
  "connected_events = [Mount, Connect ''sid-1'']"

definition uploading_events :: "event list" where
  "uploading_events =
     connected_events @ [UploadImage ''09:00:00'' ''blob:preview-1'' example_file None]"

definition uploaded_events :: "event list" where
  "uploaded_events =
     uploading_events @
     [XhrLoad ''09:00:02'' upload_accepted,
      MetadataResult ''09:00:05'' \<lparr>analysis = Some ''A cat.'', original_prompt = None\<rparr>]"

definition offline_events :: "event list" where
  "offline_events = uploaded_events @ [Disconnect]"

definition asking_events :: "event list" where
  "asking_events = uploaded_events @ [SendMessage ''09:01:00'' ''09:01:00'' ''what is this?'']"

definition silenced_events :: "event list" where
  "silenced_events = asking_events @ [Typing False]"

definition after_load_events :: "event list" where
  "after_load_events = uploading_events @ [XhrLoad ''09:00:02'' upload_accepted]"

definition typing_after_load_events :: "event list" where
  "typing_after_load_events = after_load_events @ [Typing False]"


section \<open>Facts about the rounding of doubles\<close>


















section \<open>The inbound reactor\<close>

text \<open>
  C10: an inbound \<^verbatim>\<open>message\<close> event appends exactly one message to the history,
  with the event's content and the sender \<^verbatim>\<open>'ai'\<close>; the role of the event has no
  influence on the session at all.
\<close>

theorem message_event_appends_ai:
  "messages (on_message now d s)
     = messages s @ [\<lparr>content = msg_content d, sender = Ai, timestamp = now\<rparr>]
   \<and> on_message now (d\<lparr>msg_role := r\<rparr>) s = on_message now d s"
  by (simp add: on_message_def clearResponseTimeout_def clearTimeout_def addMessage_def
      split: option.split)

text \<open>
  C9: the \<^verbatim>\<open>disconnect\<close> handler of the reactor releases the lock and cancels the
  pending timeout (the reference is emptied and no timer with its handle stays live);
  the history, the image, the upload progress and every other field are as before.
\<close>

theorem disconnect_releases_and_frames:
  assumes "responseTimeoutRef s \<noteq> Some 0"
  shows "\<not> isProcessing (on_disconnect s)
    \<and> responseTimeoutRef (on_disconnect s) = None
    \<and> timers (on_disconnect s) =
        (case responseTimeoutRef s of
           None \<Rightarrow> timers s
         | Some h \<Rightarrow> filter (\<lambda>t. fst t \<noteq> h) (timers s))
    \<and> messages (on_disconnect s) = messages s
    \<and> imageUrl (on_disconnect s) = imageUrl s
    \<and> uploadProgress (on_disconnect s) = uploadProgress s
    \<and> socket (on_disconnect s) = socket s
    \<and> isConnected (on_disconnect s) = isConnected s
    \<and> emitted (on_disconnect s) = emitted s
    \<and> current_image_path (on_disconnect s) = current_image_path s
    \<and> requests (on_disconnect s) = requests s
    \<and> objectUrls (on_disconnect s) = objectUrls s
    \<and> lastTimer (on_disconnect s) = lastTimer s"
  using assms
  by (simp add: on_disconnect_def clearResponseTimeout_def clearTimeout_def
      split: option.split)

theorem disconnect_releases_and_frames_witness:
  "responseTimeoutRef (run asking_events) \<noteq> Some 0
   \<and> isProcessing (run asking_events)
   \<and> timers (run asking_events) = [(1, 60000)]
   \<and> \<not> isProcessing (on_disconnect (run asking_events))
   \<and> responseTimeoutRef (on_disconnect (run asking_events)) = None
   \<and> timers (on_disconnect (run asking_events)) = []
   \<and> messages (on_disconnect (run asking_events)) = messages (run asking_events)
   \<and> length (messages (run asking_events)) = 2"
proof -
  have h: "responseTimeoutRef (run asking_events) \<noteq> Some 0" by code_simp
  have a: "isProcessing (run asking_events)" by code_simp
  have b: "timers (run asking_events) = [(1, 60000)]" by code_simp
  have c: "responseTimeoutRef (run asking_events) = Some 1" by code_simp
  have d: "length (messages (run asking_events)) = 2" by code_simp
  show ?thesis
    using disconnect_releases_and_frames [OF h] a b c d by simp
qed

section \<open>Asking a question\<close>

text \<open>
  C4: \<^verbatim>\<open>sendMessage\<close> called with an image and without a connection appends exactly
  two messages, the user's and then one explanatory message of the assistant; it arms
  no timer and leaves the lock (and everything else) as it was, so a lock that was
  false stays false.
\<close>

theorem ask_disconnected:
  assumes "truthy_string (imageUrl s)" and "\<not> isConnected s"
  shows "sendMessage now now' text s =
      s\<lparr>messages := messages s @
        [\<lparr>content = text, sender = User, timestamp = now\<rparr>,
         \<lparr>content = ''There is a problem processing your request, please try again later'',
          sender = Ai, timestamp = now'\<rparr>]\<rparr>
    \<and> timers (sendMessage now now' text s) = timers s
    \<and> responseTimeoutRef (sendMessage now now' text s) = responseTimeoutRef s
    \<and> isProcessing (sendMessage now now' text s) = isProcessing s"
  using assms by (simp add: sendMessage_def addMessage_def Let_def)

theorem ask_disconnected_witness:
  "truthy_string (imageUrl (run offline_events))
   \<and> \<not> isConnected (run offline_events)
   \<and> \<not> isProcessing (run offline_events)
   \<and> \<not> isProcessing
        (sendMessage ''09:02:00'' ''09:02:01'' ''what is this?'' (run offline_events))
   \<and> timers
        (sendMessage ''09:02:00'' ''09:02:01'' ''what is this?'' (run offline_events)) = []"
proof -
  have h1: "truthy_string (imageUrl (run offline_events))" by code_simp
  have h2: "\<not> isConnected (run offline_events)" by code_simp
  have a: "\<not> isProcessing (run offline_events)" by code_simp
  have b: "timers (run offline_events) = []" by code_simp
  show ?thesis
    using ask_disconnected [OF h1 h2, of "''09:02:00''" "''09:02:01''" "''what is this?''"]
      h1 h2 a b
    by simp
qed

text \<open>
  C5: a question asked with an image and a connection arms the timer; when that
  timer elapses, exactly one timeout message of the assistant is appended, the lock is
  released and the reference to the timer is emptied. A \<^verbatim>\<open>message\<close> event that
  arrives afterwards still appends its content as one more message of the assistant,
  and it makes no call of \<^verbatim>\<open>clearTimeout\<close>.
\<close>

theorem timeout_then_late_message:
  assumes "truthy_string (imageUrl s)" and "isConnected s"
  shows "responseTimeoutRef (sendMessage now now' text s) = Some (Suc (lastTimer s))
    \<and> (Suc (lastTimer s), 60000) \<in> set (timers (sendMessage now now' text s))
    \<and> isProcessing (sendMessage now now' text s)
    \<and> messages (sendMessage now now' text s) =
        messages s @ [\<lparr>content = text, sender = User, timestamp = now\<rparr>]
    \<and> messages (timeout_fires t (Suc (lastTimer s)) (sendMessage now now' text s)) =
        messages s @
          [\<lparr>content = text, sender = User, timestamp = now\<rparr>,
           \<lparr>content = ''Server timeout. Please try again.'', sender = Ai, timestamp = t\<rparr>]
    \<and> \<not> isProcessing (timeout_fires t (Suc (lastTimer s)) (sendMessage now now' text s))
    \<and> responseTimeoutRef
        (timeout_fires t (Suc (lastTimer s)) (sendMessage now now' text s)) = None
    \<and> messages
        (on_message t' d (timeout_fires t (Suc (lastTimer s)) (sendMessage now now' text s))) =
        messages (timeout_fires t (Suc (lastTimer s)) (sendMessage now now' text s)) @
          [\<lparr>content = msg_content d, sender = Ai, timestamp = t'\<rparr>]
    \<and> clearCalls
        (on_message t' d (timeout_fires t (Suc (lastTimer s)) (sendMessage now now' text s))) =
        clearCalls (timeout_fires t (Suc (lastTimer s)) (sendMessage now now' text s))"
  using assms
  by (simp add: sendMessage_def timeout_fires_def on_message_def clearResponseTimeout_def
      clearTimeout_def setTimeout_def sendToSocket_def addMessage_def Let_def
      split: option.split)

theorem timeout_then_late_message_witness:
  "truthy_string (imageUrl (run uploaded_events))
   \<and> isConnected (run uploaded_events)
   \<and> messages
       (on_message ''09:03:00'' \<lparr>msg_role = Assistant, msg_content = ''A tabby cat.''\<rparr>
         (timeout_fires ''09:02:00'' (Suc (lastTimer (run uploaded_events)))
           (sendMessage ''09:01:00'' ''09:01:00'' ''describe colors'' (run uploaded_events)))) =
     messages (run uploaded_events) @
       [\<lparr>content = ''describe colors'', sender = User, timestamp = ''09:01:00''\<rparr>,
        \<lparr>content = ''Server timeout. Please try again.'', sender = Ai,
         timestamp = ''09:02:00''\<rparr>,
        \<lparr>content = ''A tabby cat.'', sender = Ai, timestamp = ''09:03:00''\<rparr>]"
proof -
  have h1: "truthy_string (imageUrl (run uploaded_events))" by code_simp
  have h2: "isConnected (run uploaded_events)" by code_simp
  show ?thesis
    using timeout_then_late_message [OF h1 h2, of "''09:01:00''" "''09:01:00''"
        "''describe colors''" "''09:02:00''" "''09:03:00''"
        "\<lparr>msg_role = Assistant, msg_content = ''A tabby cat.''\<rparr>"] h1 h2
    by simp
qed

section \<open>Uploading an image\<close>

lemma fold_xhr_progress_frame:
  "isProcessing (fold xhr_progress evs s) = isProcessing s
   \<and> messages (fold xhr_progress evs s) = messages s
   \<and> socket (fold xhr_progress evs s) = socket s
   \<and> emitted (fold xhr_progress evs s) = emitted s"
  by (induction evs arbitrary: s) (simp_all add: xhr_progress_def)

lemma step_keeps_lock:
  "isProcessing s \<Longrightarrow> \<not> may_release_lock e \<Longrightarrow> isProcessing (step s e)"
  by (cases e)
    (auto simp: socket_mount_def socket_on_connect_def socket_on_connect_error_def
      on_typing_def sendMessage_def uploadImage_def xhr_progress_def xhr_load_def
      clearImage_def clearTimeout_def setTimeout_def sendToSocket_def addMessage_def
      JSON_parse_def Let_def
      split: option.splits sum.splits response_text.splits if_splits)

lemma foldl_step_keeps_lock:
  "isProcessing s \<Longrightarrow> \<forall>e\<in>set es. \<not> may_release_lock e \<Longrightarrow> isProcessing (foldl step s es)"
  by (induction es arbitrary: s) (simp_all add: step_keeps_lock)

text \<open>
  C3, as the claim states it, fails in its last clause: after the successful
  \<^verbatim>\<open>load\<close> event of the example, with the lock held, a \<^verbatim>\<open>typing\<close> event of
  false status releases the lock, although it is no terminal event and appends no
  message.
\<close>

theorem typing_releases_lock_after_upload:
  "isProcessing (run after_load_events)
   \<and> \<not> isProcessing (run typing_after_load_events)
   \<and> messages (run typing_after_load_events) = []
   \<and> emitted (run typing_after_load_events) = [AnalyzeImage (Some ''/tmp/x.jpg'')]"
  by code_simp

text \<open>
  C3, amended: when the upload's HTTP leg ends with a status in the success range and a
  payload that reports success with its metadata and file information, the
  \<^verbatim>\<open>load\<close> handler appends no message and leaves the lock and the upload progress
  alone: its one effect is to emit one \<^verbatim>\<open>analyze_image\<close> event with the server's
  file path. In the upload that \<^verbatim>\<open>uploadImage\<close> started on a connected session the
  lock is therefore still held after any progress notifications and the \<^verbatim>\<open>load\<close>
  event, and no message has been appended. From there the lock stays held through every
  sequence of events other than the terminal inbound events (\<^verbatim>\<open>message\<close>,
  \<^verbatim>\<open>metadata_result\<close>, \<^verbatim>\<open>error\<close>, \<^verbatim>\<open>disconnect\<close>), the timeout of a question,
  the failure reactions of an upload and a \<^verbatim>\<open>typing\<close> event of false status; a
  \<^verbatim>\<open>metadata_result\<close> event releases it, and so does \<^verbatim>\<open>typing\<close> with a false
  status.
\<close>

theorem upload_success_holds_lock:
  assumes "200 \<le> status xhr" and "status xhr < 300"
    and "responseText xhr = JsonValue r" and "success r"
    and "metadata r = Some md" and "file_info md = Some fi"
    and "socket s \<noteq> None" and "socket s0 \<noteq> None" and "isConnected s0"
    and "\<forall>e\<in>set es. \<not> may_release_lock e"
  shows "xhr_load now xhr s = Inr (s\<lparr>emitted := emitted s @ [AnalyzeImage (file_path fi)]\<rparr>)
    \<and> (let s1 = uploadImage now0 url file None s0;
            s2 = fold xhr_progress evs s1;
            s3 = s2\<lparr>emitted := emitted s0 @ [AnalyzeImage (file_path fi)]\<rparr>
        in xhr_load now xhr s2 = Inr s3
           \<and> isProcessing s3
           \<and> messages s3 = messages s0
           \<and> uploadProgress s3 = uploadProgress s2
           \<and> isProcessing (foldl step s3 es)
           \<and> \<not> isProcessing (on_metadata_result now' d s3)
           \<and> \<not> isProcessing (on_typing False s3))"
proof -
  have load: "xhr_load now xhr t = Inr (t\<lparr>emitted := emitted t @ [AnalyzeImage (file_path fi)]\<rparr>)"
    if "socket t \<noteq> None" for t
    using that assms(1-6)
    by (auto simp: xhr_load_def JSON_parse_def sendToSocket_def)
  define s1 where "s1 = uploadImage now0 url file None s0"
  define s2 where "s2 = fold xhr_progress evs s1"
  define s3 where "s3 = s2\<lparr>emitted := emitted s0 @ [AnalyzeImage (file_path fi)]\<rparr>"
  have u: "isProcessing s1" "messages s1 = messages s0" "socket s1 = socket s0"
    "emitted s1 = emitted s0"
    using assms(9) by (simp_all add: s1_def uploadImage_def Let_def)
  have p: "isProcessing s2" "messages s2 = messages s0" "socket s2 \<noteq> None"
    "emitted s2 = emitted s0"
    using u assms(8) fold_xhr_progress_frame [of evs s1] by (simp_all add: s2_def)
  have l3: "isProcessing s3" using p(1) by (simp add: s3_def)
  have k: "isProcessing (foldl step s3 es)"
    using l3 assms(10) by (rule foldl_step_keeps_lock)
  have m: "\<not> isProcessing (on_metadata_result now' d s3)"
    by (simp add: on_metadata_result_def clearResponseTimeout_def clearTimeout_def Let_def
        split: option.split)
  have t: "\<not> isProcessing (on_typing False s3)"
    by (simp add: on_typing_def)
  have "xhr_load now xhr s2 = Inr s3"
    using load [OF p(3)] p(4) by (simp add: s3_def)
  moreover have "messages s3 = messages s0" "uploadProgress s3 = uploadProgress s2"
    using p(2) by (simp_all add: s3_def)
  ultimately show ?thesis
    unfolding Let_def s1_def [symmetric] s2_def [symmetric] s3_def [symmetric]
    using load [OF assms(7)] l3 k m t by simp
qed

theorem upload_success_holds_lock_witness:
  "xhr_load ''09:00:02'' upload_accepted (run uploading_events) =
     Inr ((run uploading_events)\<lparr>emitted := [AnalyzeImage (Some ''/tmp/x.jpg'')]\<rparr>)
   \<and> isProcessing (run uploading_events)
   \<and> messages (run uploading_events) = []
   \<and> list_all (\<lambda>e. \<not> may_release_lock e)
       [Typing True, ClearImage, XhrProgress \<lparr>lengthComputable = True, loaded = 1, total = 2\<rparr>]
   \<and> isProcessing
       (foldl step ((run uploading_events)\<lparr>emitted := [AnalyzeImage (Some ''/tmp/x.jpg'')]\<rparr>)
         [Typing True, ClearImage,
          XhrProgress \<lparr>lengthComputable = True, loaded = 1, total = 2\<rparr>])"
proof -
  have h: "200 \<le> status upload_accepted" "status upload_accepted < 300"
    "responseText upload_accepted = JsonValue
       \<lparr>success = True,
        metadata = Some \<lparr>file_info = Some \<lparr>file_path = Some ''/tmp/x.jpg''\<rparr>\<rparr>,
        error_text = None\<rparr>"
    "success \<lparr>success = True,
        metadata = Some \<lparr>file_info = Some \<lparr>file_path = Some ''/tmp/x.jpg''\<rparr>\<rparr>,
        error_text = None\<rparr>"
    "metadata \<lparr>success = True,
        metadata = Some \<lparr>file_info = Some \<lparr>file_path = Some ''/tmp/x.jpg''\<rparr>\<rparr>,
        error_text = None\<rparr> = Some \<lparr>file_info = Some \<lparr>file_path = Some ''/tmp/x.jpg''\<rparr>\<rparr>"
    "file_info \<lparr>file_info = Some \<lparr>file_path = Some ''/tmp/x.jpg''\<rparr>\<rparr>
       = Some \<lparr>file_path = Some ''/tmp/x.jpg''\<rparr>"
    by (simp_all add: upload_accepted_def)
  have k: "socket (run uploading_events) \<noteq> None" "socket (run connected_events) \<noteq> None"
    "isConnected (run connected_events)"
    by code_simp+
  have q: "\<forall>e\<in>set [Typing True, ClearImage,
      XhrProgress \<lparr>lengthComputable = True, loaded = 1, total = 2\<rparr>]. \<not> may_release_lock e"
    by simp
  have u: "uploadImage ''09:00:00'' ''blob:preview-1'' example_file None (run connected_events)
      = run uploading_events"
    by code_simp
  have e: "emitted (run connected_events) = []" by code_simp
  have a: "isProcessing (run uploading_events)" by code_simp
  have b: "messages (run uploading_events) = []" by code_simp
  have c: "emitted (run uploading_events) = []" by code_simp
  show ?thesis
    using upload_success_holds_lock [OF h k q, of "''09:00:02''" "''09:00:00''"
        "''blob:preview-1''" example_file "[]" "''09:00:05''"
        "\<lparr>analysis = None, original_prompt = None\<rparr>"]
      a b c e u
    by (simp add: Let_def)
qed

text \<open>
  C1: the claim asks for an error message and a released lock when a response in the
  success range carries a payload that reports failure. The \<^verbatim>\<open>load\<close> handler has
  no branch for that case: on the upload in flight of the example, a status 200 with
  \<^verbatim>\<open>{success: false, error: "No file part"}\<close> leaves the session exactly as it was,
  with the lock held and no message.
\<close>

theorem rejected_payload_ignored:
  "xhr_load ''09:00:02'' upload_rejected (run uploading_events) = Inr (run uploading_events)
   \<and> isProcessing (run uploading_events)
   \<and> messages (run uploading_events) = []"
  by code_simp

section \<open>The stored image path\<close>

lemma step_keeps_no_path:
  "current_image_path s = None \<Longrightarrow> current_image_path (step s e) = None"
  by (cases e)
    (auto simp: socket_mount_def socket_on_connect_def socket_on_connect_error_def
      socket_on_disconnect_def on_disconnect_def on_message_def on_typing_def
      on_metadata_result_def on_error_def sendMessage_def timeout_fires_def uploadImage_def
      xhr_progress_def xhr_load_def xhr_error_def clearImage_def clearResponseTimeout_def
      clearTimeout_def setTimeout_def sendToSocket_def addMessage_def JSON_parse_def Let_def
      split: option.splits sum.splits response_text.splits if_splits)

lemma foldl_step_keeps_no_path:
  "current_image_path s = None \<Longrightarrow> current_image_path (foldl step s es) = None"
  by (induction es arbitrary: s) (simp_all add: step_keeps_no_path)

text \<open>
  C2: \<^verbatim>\<open>sendMessage\<close> sends the \<^verbatim>\<open>localStorage\<close> item
  \<^verbatim>\<open>current_image_path\<close> as the image path, and no handler ever writes that item
  (\<^verbatim>\<open>clearImage\<close> removes it): in every run of the session it is absent. In the
  example the server reports the path \<^verbatim>\<open>/tmp/x.jpg\<close>, which goes out with
  \<^verbatim>\<open>analyze_image\<close>, and the question that follows is sent with the image path
  \<^verbatim>\<open>null\<close>; the lock is set and the one timer of 60 seconds is armed.
\<close>

theorem question_carries_no_path:
  "current_image_path (run es) = None
   \<and> emitted (run asking_events) =
       [AnalyzeImage (Some ''/tmp/x.jpg''), MessageEvent ''what is this?'' None]
   \<and> isProcessing (run asking_events)
   \<and> timers (run asking_events) = [(1, 60000)]
   \<and> responseTimeoutRef (run asking_events) = Some 1"
proof -
  have "current_image_path (run es) = None"
    unfolding run_def by (rule foldl_step_keeps_no_path) (simp add: initial_def)
  moreover have "emitted (run asking_events) =
       [AnalyzeImage (Some ''/tmp/x.jpg''), MessageEvent ''what is this?'' None]"
    by code_simp
  moreover have "isProcessing (run asking_events)" by code_simp
  moreover have "timers (run asking_events) = [(1, 60000)]" by code_simp
  moreover have "responseTimeoutRef (run asking_events) = Some 1" by code_simp
  ultimately show ?thesis by simp
qed

section \<open>Clearing the image\<close>

text \<open>
  C6, as the claim states it, fails: \<^verbatim>\<open>clearImage\<close> called while a question is
  pending leaves the lock held, the timer armed and referenced, and the object URL of
  the preview unrevoked.
\<close>

theorem clearImage_keeps_lock_and_timer:
  "isProcessing (clearImage (run asking_events))
   \<and> responseTimeoutRef (clearImage (run asking_events)) = Some 1
   \<and> timers (clearImage (run asking_events)) = [(1, 60000)]
   \<and> objectUrls (clearImage (run asking_events)) = [''blob:preview-1'']"
  by code_simp

text \<open>
  C6, amended: every call of \<^verbatim>\<open>clearImage\<close>, connected or not, empties the image
  reference and the history and removes the stored image path, and it emits one
  \<^verbatim>\<open>clear_image\<close> event exactly when the session is connected (and has its socket);
  the lock, the timer reference, the timers, the object URLs and the upload progress
  are as before. A second call changes nothing but the list of emitted events.
\<close>

theorem clearImage_effect:
  "imageUrl (clearImage s) = []
   \<and> messages (clearImage s) = []
   \<and> current_image_path (clearImage s) = None
   \<and> emitted (clearImage s) =
       (if isConnected s \<and> socket s \<noteq> None then emitted s @ [ClearImageEvent] else emitted s)
   \<and> isProcessing (clearImage s) = isProcessing s
   \<and> responseTimeoutRef (clearImage s) = responseTimeoutRef s
   \<and> timers (clearImage s) = timers s
   \<and> clearCalls (clearImage s) = clearCalls s
   \<and> objectUrls (clearImage s) = objectUrls s
   \<and> uploadProgress (clearImage s) = uploadProgress s
   \<and> (clearImage (clearImage s))\<lparr>emitted := es\<rparr> = (clearImage s)\<lparr>emitted := es\<rparr>"
  by (simp add: clearImage_def sendToSocket_def Let_def split: option.split)

theorem clearImage_effect_witness:
  "isConnected (run asking_events) \<and> socket (run asking_events) \<noteq> None
   \<and> imageUrl (clearImage (run asking_events)) = []
   \<and> messages (clearImage (run asking_events)) = []
   \<and> emitted (clearImage (run asking_events)) =
       [AnalyzeImage (Some ''/tmp/x.jpg''), MessageEvent ''what is this?'' None,
        ClearImageEvent]
   \<and> emitted (clearImage (run offline_events)) = [AnalyzeImage (Some ''/tmp/x.jpg'')]"
proof -
  have a: "isConnected (run asking_events)" "socket (run asking_events) \<noteq> None"
    by code_simp+
  have b: "emitted (run asking_events) =
       [AnalyzeImage (Some ''/tmp/x.jpg''), MessageEvent ''what is this?'' None]"
    by code_simp
  have c: "\<not> isConnected (run offline_events)" by code_simp
  have d: "emitted (run offline_events) = [AnalyzeImage (Some ''/tmp/x.jpg'')]"
    by code_simp
  show ?thesis
    using clearImage_effect [of "run asking_events" "[]"]
      clearImage_effect [of "run offline_events" "[]"] a b c d
    by simp
qed

section \<open>The timer and the lock\<close>

text \<open>
  C7, as the claim states it, fails: a \<^verbatim>\<open>typing\<close> event with a false status that
  arrives while a question is pending releases the lock and leaves the timer armed and
  referenced.
\<close>

theorem typing_false_breaks_timer_invariant:
  "responseTimeoutRef (run silenced_events) = Some 1
   \<and> timers (run silenced_events) = [(1, 60000)]
   \<and> \<not> isProcessing (run silenced_events)
   \<and> \<not> timer_implies_lock (run silenced_events)"
  by code_simp

lemma step_keeps_timer_inv:
  "timer_inv s \<Longrightarrow> \<not> releases_lock_only e \<Longrightarrow> timer_inv (step s e)"
  by (cases e)
    (auto simp: timer_inv_def socket_mount_def socket_on_connect_def socket_on_connect_error_def
      socket_on_disconnect_def on_disconnect_def on_message_def on_typing_def
      on_metadata_result_def on_error_def sendMessage_def timeout_fires_def uploadImage_def
      xhr_progress_def xhr_load_def xhr_error_def clearImage_def clearResponseTimeout_def
      clearTimeout_def setTimeout_def sendToSocket_def addMessage_def JSON_parse_def Let_def
      split: option.splits sum.splits response_text.splits if_splits)

lemma foldl_step_keeps_timer_inv:
  "timer_inv s \<Longrightarrow> \<forall>e\<in>set es. \<not> releases_lock_only e \<Longrightarrow> timer_inv (foldl step s es)"
  by (induction es arbitrary: s) (simp_all add: step_keeps_timer_inv)

text \<open>
  C7, amended: in every state that the session reaches without a \<^verbatim>\<open>typing\<close> event
  of false status and without a failure reaction of an upload (HTTP error, network
  error, exception), the timer reference is non-null only while the lock is held.
\<close>

theorem timer_only_while_locked:
  assumes "\<forall>e\<in>set es. \<not> releases_lock_only e"
  shows "timer_implies_lock (run es)"
proof -
  have "timer_inv initial" by (simp add: timer_inv_def initial_def)
  then have "timer_inv (run es)"
    unfolding run_def using assms by (rule foldl_step_keeps_timer_inv)
  then show ?thesis
    by (auto simp: timer_inv_def timer_implies_lock_def split: option.splits)
qed

theorem timer_only_while_locked_witness:
  "list_all (\<lambda>e. \<not> releases_lock_only e) asking_events
   \<and> timer_implies_lock (run asking_events)
   \<and> responseTimeoutRef (run asking_events) = Some 1"
proof -
  have h: "\<forall>e\<in>set asking_events. \<not> releases_lock_only e"
    by (simp add: asking_events_def uploaded_events_def uploading_events_def
        connected_events_def upload_accepted_def)
  have r: "responseTimeoutRef (run asking_events) = Some 1" by code_simp
  show ?thesis using timer_only_while_locked [OF h] h r by (simp add: list_all_iff)
qed

section \<open>Upload progress\<close>










end
